theory Spec2Isabelle
  imports Complex_Main
begin

section \<open>Data model\<close>

text \<open>
  The embedding follows the third \<open>AppContent\<close> component of
  \<open>src/frontend/src/App.js\<close> (lines 4606 to 7425), the one that holds the
  notification registries.  JavaScript numbers are read as real numbers: rounding,
  \<open>NaN\<close> and the infinities of IEEE doubles are outside the model, as is a \<open>null\<close>
  coordinate.  What is proved of \<open>getDistance\<close> is therefore proved of the formula,
  not of its value in doubles; the filters and the ticks only compare that value with
  a radius.  Item ids, titles and status values are strings, as in the JSON feed.
\<close>

record post =
  post_id :: string
  title :: string
  latitude :: real
  longitude :: real
  status :: string

text \<open>\<open>userLocation\<close> is \<open>null\<close> or the array \<open>[latitude, longitude]\<close>.\<close>

type_synonym location = "real \<times> real"

section \<open>Great-circle distance\<close>

text \<open>
  \<open>Math.atan2(y, x)\<close> over the reals: the angle of the point \<open>(x, y)\<close>, in
  \<open>(-\<pi>, \<pi>]\<close>, and \<open>0\<close> at the origin.
\<close>

definition Math_atan2 :: "real \<Rightarrow> real \<Rightarrow> real" where
  "Math_atan2 y x =
     (if 0 < x then arctan (y / x)
      else if x < 0 then (if 0 \<le> y then arctan (y / x) + pi else arctan (y / x) - pi)
      else if 0 < y then pi / 2
      else if y < 0 then - (pi / 2)
      else 0)"

text \<open>\<open>getDistance\<close> (App.js 4758): the haversine formula, in kilometres.\<close>

definition getDistance :: "real \<Rightarrow> real \<Rightarrow> real \<Rightarrow> real \<Rightarrow> real" where
  "getDistance lat1 lon1 lat2 lon2 =
     (let R = 6371;
          dLat = (lat2 - lat1) * pi / 180;
          dLon = (lon2 - lon1) * pi / 180;
          a = sin (dLat / 2) * sin (dLat / 2) +
              cos (lat1 * pi / 180) * cos (lat2 * pi / 180) *
              sin (dLon / 2) * sin (dLon / 2);
          c = 2 * Math_atan2 (sqrt a) (sqrt (1 - a))
      in R * c)"

text \<open>The value of \<open>a\<close> in \<open>getDistance\<close>, named for the proofs.\<close>

definition haversine_a :: "real \<Rightarrow> real \<Rightarrow> real \<Rightarrow> real \<Rightarrow> real" where
  "haversine_a lat1 lon1 lat2 lon2 =
     sin ((lat2 - lat1) * pi / 180 / 2) * sin ((lat2 - lat1) * pi / 180 / 2) +
     cos (lat1 * pi / 180) * cos (lat2 * pi / 180) *
     sin ((lon2 - lon1) * pi / 180 / 2) * sin ((lon2 - lon1) * pi / 180 / 2)"

section \<open>Radius filter\<close>

text \<open>\<open>filterPostsByRadius\<close> (App.js 4899).\<close>

definition filterPostsByRadius :: "post list \<Rightarrow> location option \<Rightarrow> real \<Rightarrow> post list" where
  "filterPostsByRadius allPosts location radius =
     (case location of
        None \<Rightarrow> allPosts
      | Some loc \<Rightarrow>
          filter (\<lambda>post.
            let distance = getDistance (fst loc) (snd loc) (latitude post) (longitude post)
            in distance \<le> radius) allPosts)"

text \<open>
  \<open>postsInRadius\<close> (App.js 4784): the memoised view of \<open>filteredPosts\<close>, here a
  function of the three state values it is computed from.
\<close>

definition postsInRadius :: "post list \<Rightarrow> location option \<Rightarrow> real \<Rightarrow> post list" where
  "postsInRadius filteredPosts userLocation radiusKm =
     (case userLocation of
        None \<Rightarrow> filteredPosts
      | Some loc \<Rightarrow>
          filter (\<lambda>post.
            let distance = getDistance (fst loc) (snd loc) (latitude post) (longitude post)
            in distance \<le> radiusKm) filteredPosts)"


section \<open>Registries and their persisted form\<close>

text \<open>
  A thrown exception is a value: \<open>SyntaxError\<close> is what \<open>JSON.parse\<close> throws on a
  text that is not JSON, \<open>NetworkError\<close> stands for a rejected \<open>axios.get\<close>.
\<close>

datatype error = SyntaxError | NetworkError

datatype json =
    JNull
  | JBool bool
  | JNumber real
  | JString string
  | JArray "json list"
  | JObject "(string \<times> json) list"

text \<open>
  \<open>JSON.parse\<close> is the language's own function.  A JSON text is a value between
  optional white space (space, tab, line feed, carriage return), and a value begins
  with one of \<open>{ [ " -\<close>, a digit, or the first letter of \<open>true\<close>, \<open>false\<close> or
  \<open>null\<close>.  \<open>JSON.parse\<close> throws a \<open>SyntaxError\<close> on every text that does not
  begin so; what it does on the other texts is the parameter \<open>grammar\<close>.
\<close>

definition JSON_whitespace :: "char \<Rightarrow> bool" where
  "JSON_whitespace c = (c \<in> {CHR 0x20, CHR 0x09, CHR 0x0A, CHR 0x0D})"

definition starts_json_value :: "string \<Rightarrow> bool" where
  "starts_json_value text =
     (case dropWhile JSON_whitespace text of
        [] \<Rightarrow> False
      | c # cs \<Rightarrow> c \<in> set ''{[\"-0123456789tfn'')"

definition JSON_parse :: "(string \<Rightarrow> error + json) \<Rightarrow> string \<Rightarrow> error + json" where
  "JSON_parse grammar text =
     (if starts_json_value text then grammar text else Inl SyntaxError)"

text \<open>
  The \<open>useState\<close> initializer of \<open>myPostIds\<close>, \<open>lastSeenPostIds\<close> and
  \<open>favorites\<close> (App.js 4668, 4672, 4684): \<open>saved ? JSON.parse(saved) : []\<close>, where
  \<open>saved\<close> is what \<open>localStorage.getItem\<close> returned, \<open>null\<close> or a string.  The
  empty string is falsy.  What \<open>JSON.parse\<close> throws leaves the initializer uncaught.
\<close>

definition load_ids :: "(string \<Rightarrow> error + json) \<Rightarrow> string option \<Rightarrow> error + json" where
  "load_ids grammar saved =
     (case saved of
        None \<Rightarrow> Inr (JArray [])
      | Some text \<Rightarrow> if text = [] then Inr (JArray []) else JSON_parse grammar text)"

text \<open>
  The initializer of \<open>nearbyNotificationsEnabled\<close> (App.js 4676):
  \<open>saved === null ? true : saved === 'true'\<close>.
\<close>

definition load_notifications_flag :: "string option \<Rightarrow> bool" where
  "load_notifications_flag saved =
     (case saved of None \<Rightarrow> True | Some text \<Rightarrow> text = ''true'')"

section \<open>Component state\<close>

record app_state =
  posts :: "post list"
  filteredPosts :: "post list"
  loading :: bool
  userLocation :: "location option"
  radiusKm :: real
  myPostIds :: "string list"
  lastSeenPostIds :: "string list"
  nearbyNotificationsEnabled :: bool
  favorites :: "string list"

text \<open>
  The part of the state of \<open>AppContent\<close> that the feed, the radius filter and the
  notification registries use.  \<open>localStorage\<close> mirrors the registries after each
  write and is not kept apart.  The search box, whose debounce timer also writes
  \<open>filteredPosts\<close>, is outside the model.

  \<open>initial_state\<close> is the state of a first visit: every storage key absent, no
  fetch made yet.
\<close>

definition initial_state :: app_state where
  "initial_state =
     \<lparr>posts = [], filteredPosts = [], loading = True, userLocation = None,
      radiusKm = 105, myPostIds = [], lastSeenPostIds = [],
      nearbyNotificationsEnabled = True, favorites = []\<rparr>"

text \<open>
  A call of \<open>showNotification\<close> is an event: \<open>Nearby p\<close> is the call with type
  \<open>nearby\<close> whose message names the title of \<open>p\<close> (App.js 5072), \<open>Collected p\<close>
  the call with type \<open>collected\<close> (App.js 5089).  The event keeps the item the message
  is built from, so that it can be traced to the item's id.
\<close>

datatype event = Nearby post | Collected post

fun event_id :: "event \<Rightarrow> string" where
  "event_id (Nearby p) = post_id p"
| "event_id (Collected p) = post_id p"

fun is_nearby :: "event \<Rightarrow> bool" where
  "is_nearby (Nearby p) = True"
| "is_nearby (Collected p) = False"

fun is_collected :: "event \<Rightarrow> bool" where
  "is_collected (Nearby p) = False"
| "is_collected (Collected p) = True"

section \<open>Feed refresh\<close>

text \<open>
  \<open>fetchPosts\<close> (App.js 4908).  The argument is the outcome of \<open>axios.get\<close>.  The
  \<open>catch\<close> branch logs and shows a toast, neither of which is state.  The location
  and the radius of the filter are those of the call's closure; they are taken from
  the state the response meets, and decide \<open>filteredPosts\<close> only.
\<close>

definition fetchPosts :: "error + post list \<Rightarrow> app_state \<Rightarrow> app_state" where
  "fetchPosts response s =
     (case response of
        Inr data \<Rightarrow>
          s\<lparr>posts := data,
            filteredPosts :=
              (case userLocation s of
                 Some loc \<Rightarrow> filterPostsByRadius data (Some loc) (radiusKm s)
               | None \<Rightarrow> data),
            loading := False\<rparr>
      | Inl err \<Rightarrow> s\<lparr>loading := False\<rparr>)"

text \<open>
  The effect that filters again when the radius, the location or the list changes
  (App.js 4928).
\<close>

definition refilter_effect :: "app_state \<Rightarrow> app_state" where
  "refilter_effect s =
     (case userLocation s of
        Some loc \<Rightarrow>
          if length (posts s) > 0
          then s\<lparr>filteredPosts := filterPostsByRadius (posts s) (Some loc) (radiusKm s)\<rparr>
          else s
      | None \<Rightarrow> s)"

text \<open>The effect that marks the posts of the first load as seen (App.js 5116).\<close>

definition mark_initial_seen :: "app_state \<Rightarrow> app_state" where
  "mark_initial_seen s =
     (if length (posts s) > 0 \<and> length (lastSeenPostIds s) = 0
      then let currentIds = map post_id (posts s) in s\<lparr>lastSeenPostIds := currentIds\<rparr>
      else s)"

text \<open>The effects that run after a render in which \<open>posts\<close> changed, in source order.\<close>

definition render_effects :: "app_state \<Rightarrow> app_state" where
  "render_effects s = mark_initial_seen (refilter_effect s)"

section \<open>Poll tick\<close>

text \<open>
  \<open>checkForUpdates\<close> (App.js 5051) reads \<open>userLocation\<close>, \<open>myPostIds\<close> and
  \<open>lastSeenPostIds\<close> from the closure of the render that installed the interval
  (here \<open>loc0\<close>, \<open>mine0\<close>, \<open>seen0\<close>) and writes through functional updaters, which
  act on the live state.  The two \<open>forEach\<close> bodies are steps on the pair of the
  live state and the events raised so far.
\<close>

definition nearby_body ::
  "location \<Rightarrow> string list \<Rightarrow> string list \<Rightarrow> post \<Rightarrow>
   app_state \<times> event list \<Rightarrow> app_state \<times> event list" where
  "nearby_body loc seen0 mine0 p \<sigma> =
     (if post_id p \<in> set seen0 then \<sigma>
      else if post_id p \<in> set mine0 then \<sigma>
      else
        let nearbyRadius = 1;
            distance = getDistance (fst loc) (snd loc) (latitude p) (longitude p)
        in if distance \<le> nearbyRadius \<and> status p = ''active''
           then ((fst \<sigma>)\<lparr>lastSeenPostIds := lastSeenPostIds (fst \<sigma>) @ [post_id p]\<rparr>,
                 snd \<sigma> @ [Nearby p])
           else \<sigma>)"

definition collected_body ::
  "post list \<Rightarrow> string \<Rightarrow> app_state \<times> event list \<Rightarrow> app_state \<times> event list" where
  "collected_body currentPosts myPostId \<sigma> =
     (case find (\<lambda>p. post_id p = myPostId) currentPosts of
        None \<Rightarrow> \<sigma>
      | Some myPost \<Rightarrow>
          if status myPost = ''collected''
          then ((fst \<sigma>)\<lparr>myPostIds := filter (\<lambda>i. i \<noteq> myPostId) (myPostIds (fst \<sigma>))\<rparr>,
                snd \<sigma> @ [Collected myPost])
          else \<sigma>)"

definition checkForUpdates ::
  "location option \<Rightarrow> string list \<Rightarrow> string list \<Rightarrow> error + post list \<Rightarrow>
   app_state \<Rightarrow> app_state \<times> event list" where
  "checkForUpdates loc0 mine0 seen0 response s =
     (case response of
        Inl err \<Rightarrow> (s, [])
      | Inr currentPosts \<Rightarrow>
          let \<sigma>1 = (case loc0 of
                      None \<Rightarrow> (s, [])
                    | Some loc \<Rightarrow> fold (nearby_body loc seen0 mine0) currentPosts (s, []));
              \<sigma>2 = fold (collected_body currentPosts) mine0 \<sigma>1
          in ((fst \<sigma>2)\<lparr>posts := currentPosts, filteredPosts := currentPosts\<rparr>, snd \<sigma>2))"

text \<open>
  A tick whose fetch settles before anything else happens: its closure is the state
  it meets.  The general case, a tick that is pending while the state changes, is
  \<open>tick_done\<close> below.  A failed fetch changes no state, so no effect runs after it.
\<close>

definition poll :: "error + post list \<Rightarrow> app_state \<Rightarrow> app_state \<times> event list" where
  "poll response s =
     (let (s', evs) = checkForUpdates (userLocation s) (myPostIds s) (lastSeenPostIds s) response s
      in case response of
           Inl err \<Rightarrow> (s', evs)
         | Inr currentPosts \<Rightarrow> (render_effects s', evs))"

section \<open>Operations of the component\<close>

text \<open>
  The operations that run to completion at once.
  \<open>Poll\<close>: the interval fires and the fetch settles with the given outcome before
  anything else happens (there is no interval while notifications are disabled,
  App.js 5049).
  \<open>Fetch\<close>: the response of a call of \<open>fetchPosts\<close>, made on mount, whenever the
  location or the radius has changed, and after a post is submitted.
  \<open>SetLocation\<close>: the geolocation callback \<open>setUserLocation(loc)\<close>.
  \<open>ToggleNearbyNotifications\<close>, \<open>SetRadius\<close>, \<open>ToggleFavorite\<close>: the user's
  controls.
\<close>

datatype action =
    Poll "error + post list"
  | Fetch "error + post list"
  | SetLocation location
  | ToggleNearbyNotifications
  | SetRadius real
  | ToggleFavorite string

definition toggleFavorite :: "string \<Rightarrow> app_state \<Rightarrow> app_state" where
  "toggleFavorite postId s =
     (let prev = favorites s;
          newFavorites = (if postId \<in> set prev then filter (\<lambda>i. i \<noteq> postId) prev
                          else prev @ [postId])
      in s\<lparr>favorites := newFavorites\<rparr>)"

fun step :: "action \<Rightarrow> app_state \<Rightarrow> app_state \<times> event list" where
  "step (Poll response) s =
     (if nearbyNotificationsEnabled s then poll response s else (s, []))"
| "step (Fetch response) s =
     (case response of
        Inl err \<Rightarrow> (fetchPosts response s, [])
      | Inr data \<Rightarrow> (render_effects (fetchPosts response s), []))"
| "step (SetLocation loc) s = (refilter_effect (s\<lparr>userLocation := Some loc\<rparr>), [])"
| "step ToggleNearbyNotifications s =
     (s\<lparr>nearbyNotificationsEnabled := \<not> nearbyNotificationsEnabled s\<rparr>, [])"
| "step (SetRadius r) s = (refilter_effect (s\<lparr>radiusKm := r\<rparr>), [])"
| "step (ToggleFavorite postId) s = (toggleFavorite postId s, [])"

fun run :: "action list \<Rightarrow> app_state \<Rightarrow> app_state \<times> event list" where
  "run [] s = (s, [])"
| "run (a # as) s =
     (let (s1, evs1) = step a s;
          (s2, evs2) = run as s1
      in (s2, evs1 @ evs2))"

section \<open>Calls that await\<close>

text \<open>
  \<open>checkForUpdates\<close> and \<open>handleSubmitPost\<close> read registries from the closure of the
  render in which they were created and then await a request.  The interval is
  installed anew whenever one of the three values it captures changes, so the closure
  of a tick is the state at the moment the interval fires; \<open>clearInterval\<close> does not
  stop a tick that is already awaiting its fetch.  When the request settles, the call
  acts on the state of that moment with the values of its closure.
\<close>

record closure =
  cl_location :: "location option"
  cl_myPostIds :: "string list"
  cl_lastSeenPostIds :: "string list"

definition capture :: "app_state \<Rightarrow> closure" where
  "capture s =
     \<lparr>cl_location = userLocation s, cl_myPostIds = myPostIds s,
      cl_lastSeenPostIds = lastSeenPostIds s\<rparr>"

text \<open>The fetch of a tick settles: the rest of \<open>checkForUpdates\<close>, then the effects.\<close>

definition tick_done :: "closure \<Rightarrow> error + post list \<Rightarrow> app_state \<Rightarrow> app_state \<times> event list" where
  "tick_done c response s =
     (let (s', evs) = checkForUpdates (cl_location c) (cl_myPostIds c) (cl_lastSeenPostIds c)
                        response s
      in case response of
           Inl err \<Rightarrow> (s', evs)
         | Inr currentPosts \<Rightarrow> (render_effects s', evs))"

text \<open>
  The POST of \<open>handleSubmitPost\<close> settles (App.js 5662 to 5674): with an id in the
  response, \<open>myPostIds\<close> is set to the list of the closure with the new id appended;
  a failure is caught and leaves the registries alone.  The \<open>fetchPosts\<close> call that
  follows is a \<open>Fetch\<close> of its own.
\<close>

definition submit_done :: "string list \<Rightarrow> error + string \<Rightarrow> app_state \<Rightarrow> app_state" where
  "submit_done myPostIds0 response s =
     (case response of
        Inl err \<Rightarrow> s
      | Inr newPostId \<Rightarrow>
          if newPostId \<noteq> []
          then let updatedMyPosts = myPostIds0 @ [newPostId] in s\<lparr>myPostIds := updatedMyPosts\<rparr>
          else s)"

text \<open>
  The component with its pending calls: the closures of the ticks that await their
  fetch, and the captured \<open>myPostIds\<close> of the submissions that await their POST.
\<close>

record system =
  app :: app_state
  ticks :: "closure list"
  submits :: "string list list"

definition quiet :: "app_state \<Rightarrow> system" where
  "quiet s = \<lparr>app = s, ticks = [], submits = []\<rparr>"

text \<open>
  \<open>Op\<close>: an operation that runs to completion at once.
  \<open>TickStart\<close>: the interval fires and \<open>checkForUpdates\<close> starts its fetch.
  \<open>TickDone k\<close>: the fetch of the pending tick number \<open>k\<close> settles.
  \<open>SubmitStart\<close>: \<open>handleSubmitPost\<close> is called and starts its POST.
  \<open>SubmitDone k\<close>: the POST of the pending submission number \<open>k\<close> settles, with the
  id of the new item or with a failure.
\<close>

datatype occurrence =
    Op action
  | TickStart
  | TickDone nat "error + post list"
  | SubmitStart
  | SubmitDone nat "error + string"

definition without :: "nat \<Rightarrow> 'a list \<Rightarrow> 'a list" where
  "without k xs = take k xs @ drop (Suc k) xs"

fun sys_step :: "occurrence \<Rightarrow> system \<Rightarrow> system \<times> event list" where
  "sys_step (Op a) \<sigma> =
     (let (s', evs) = step a (app \<sigma>) in (\<sigma>\<lparr>app := s'\<rparr>, evs))"
| "sys_step TickStart \<sigma> =
     (if nearbyNotificationsEnabled (app \<sigma>)
      then (\<sigma>\<lparr>ticks := ticks \<sigma> @ [capture (app \<sigma>)]\<rparr>, [])
      else (\<sigma>, []))"
| "sys_step (TickDone k response) \<sigma> =
     (if k < length (ticks \<sigma>)
      then let (s', evs) = tick_done (ticks \<sigma> ! k) response (app \<sigma>)
           in (\<sigma>\<lparr>app := s', ticks := without k (ticks \<sigma>)\<rparr>, evs)
      else (\<sigma>, []))"
| "sys_step SubmitStart \<sigma> = (\<sigma>\<lparr>submits := submits \<sigma> @ [myPostIds (app \<sigma>)]\<rparr>, [])"
| "sys_step (SubmitDone k response) \<sigma> =
     (if k < length (submits \<sigma>)
      then (\<sigma>\<lparr>app := submit_done (submits \<sigma> ! k) response (app \<sigma>),
              submits := without k (submits \<sigma>)\<rparr>, [])
      else (\<sigma>, []))"

fun sys_run :: "occurrence list \<Rightarrow> system \<Rightarrow> system \<times> event list" where
  "sys_run [] \<sigma> = (\<sigma>, [])"
| "sys_run (x # xs) \<sigma> =
     (let (\<sigma>1, evs1) = sys_step x \<sigma>;
          (\<sigma>2, evs2) = sys_run xs \<sigma>1
      in (\<sigma>2, evs1 @ evs2))"

section \<open>What a tick raises\<close>

text \<open>
  The test an item passes in the nearby step, the lookup of an owned id in the
  collected step, and the items for which a successful tick raises each event.
\<close>

definition nearby_hit :: "location \<Rightarrow> string list \<Rightarrow> string list \<Rightarrow> post \<Rightarrow> bool" where
  "nearby_hit loc seen0 mine0 p =
     (post_id p \<notin> set seen0 \<and> post_id p \<notin> set mine0 \<and>
      getDistance (fst loc) (snd loc) (latitude p) (longitude p) \<le> 1 \<and>
      status p = ''active'')"

definition collected_hit :: "post list \<Rightarrow> string \<Rightarrow> post option" where
  "collected_hit currentPosts myPostId =
     (case find (\<lambda>p. post_id p = myPostId) currentPosts of
        None \<Rightarrow> None
      | Some myPost \<Rightarrow> if status myPost = ''collected'' then Some myPost else None)"

definition nearby_hits :: "app_state \<Rightarrow> post list \<Rightarrow> post list" where
  "nearby_hits s currentPosts =
     (case userLocation s of
        None \<Rightarrow> []
      | Some loc \<Rightarrow> filter (nearby_hit loc (lastSeenPostIds s) (myPostIds s)) currentPosts)"

definition collected_hits :: "app_state \<Rightarrow> post list \<Rightarrow> post list" where
  "collected_hits s currentPosts = List.map_filter (collected_hit currentPosts) (myPostIds s)"

text \<open>The same for a tick that acts with the closure \<open>c\<close>.\<close>

definition tick_nearby_hits :: "closure \<Rightarrow> post list \<Rightarrow> post list" where
  "tick_nearby_hits c currentPosts =
     (case cl_location c of
        None \<Rightarrow> []
      | Some loc \<Rightarrow>
          filter (nearby_hit loc (cl_lastSeenPostIds c) (cl_myPostIds c)) currentPosts)"

definition tick_collected_hits :: "closure \<Rightarrow> post list \<Rightarrow> post list" where
  "tick_collected_hits c currentPosts =
     List.map_filter (collected_hit currentPosts) (cl_myPostIds c)"

text \<open>The events of a run that are about one id.\<close>

definition nearby_for :: "string \<Rightarrow> event list \<Rightarrow> event list" where
  "nearby_for i evs = filter (\<lambda>e. is_nearby e \<and> event_id e = i) evs"

definition collected_for :: "string \<Rightarrow> event list \<Rightarrow> event list" where
  "collected_for i evs = filter (\<lambda>e. is_collected e \<and> event_id e = i) evs"

text \<open>
  The id is in the seen list and in the captured seen list of every pending tick.
\<close>

definition seen_by_all :: "string \<Rightarrow> system \<Rightarrow> bool" where
  "seen_by_all i \<sigma> =
     (i \<in> set (lastSeenPostIds (app \<sigma>)) \<and>
      list_all (\<lambda>c. i \<in> set (cl_lastSeenPostIds c)) (ticks \<sigma>))"

section \<open>Sample data\<close>

text \<open>
  A device on the equator at the prime meridian, an item at the same place and an
  item on the antimeridian, half the globe away.
\<close>

definition here :: location where
  "here = (0, 0)"

definition chair :: post where
  "chair = \<lparr>post_id = ''p1'', title = ''Chair'', latitude = 0, longitude = 0,
            status = ''active''\<rparr>"

definition desk :: post where
  "desk = \<lparr>post_id = ''p2'', title = ''Desk'', latitude = 0, longitude = 180,
           status = ''active''\<rparr>"

definition chair_collected :: post where
  "chair_collected = chair\<lparr>status := ''collected''\<rparr>"

definition there :: location where
  "there = (0, 180)"

text \<open>
  Two states a first visit reaches: the device is located and the feed is loaded;
  the user has submitted the chair and the feed is loaded, with no location fix.
\<close>

definition settled_state :: app_state where
  "settled_state = fst (run [SetLocation here, Fetch (Inr [chair])] initial_state)"

definition owner_state :: app_state where
  "owner_state =
     app (fst (sys_run [SubmitStart, SubmitDone 0 (Inr ''p1''), Op (Fetch (Inr [chair]))]
       (quiet initial_state)))"

text \<open>The device is located and the feed load has returned an empty board.\<close>

definition located_state :: app_state where
  "located_state = fst (run [SetLocation here, Fetch (Inr [])] initial_state)"

section \<open>Properties of the distance formula\<close>

text \<open>
  These are facts of the formula over the reals; they say nothing of rounding or of
  \<open>NaN\<close> in the doubles the code computes with.
\<close>

lemma Math_atan2_origin: "Math_atan2 0 1 = 0"
  by (simp add: Math_atan2_def)

lemma Math_atan2_north: "Math_atan2 1 0 = pi / 2"
  by (simp add: Math_atan2_def)

lemma getDistance_a:
  "getDistance lat1 lon1 lat2 lon2 =
     6371 * (2 * Math_atan2 (sqrt (haversine_a lat1 lon1 lat2 lon2))
                            (sqrt (1 - haversine_a lat1 lon1 lat2 lon2)))"
  by (simp add: getDistance_def haversine_a_def Let_def)

lemma haversine_a_self: "haversine_a lat lon lat lon = 0"
  by (simp add: haversine_a_def)

lemma getDistance_self: "getDistance lat lon lat lon = 0"
  by (simp add: getDistance_a haversine_a_self Math_atan2_origin)

lemma haversine_a_sym: "haversine_a lat1 lon1 lat2 lon2 = haversine_a lat2 lon2 lat1 lon1"
proof -
  have s: "sin (- x) * sin (- x) = sin x * sin x" for x :: real
    by simp
  have dlat: "(lat1 - lat2) * pi / 180 / 2 = - ((lat2 - lat1) * pi / 180 / 2)"
    by (simp add: field_simps)
  have dlon: "(lon1 - lon2) * pi / 180 / 2 = - ((lon2 - lon1) * pi / 180 / 2)"
    by (simp add: field_simps)
  show ?thesis
    unfolding haversine_a_def dlat dlon
    by (simp only: s mult.assoc) (simp add: mult.commute mult.left_commute)
qed

lemma getDistance_sym: "getDistance lat1 lon1 lat2 lon2 = getDistance lat2 lon2 lat1 lon1"
  by (simp add: getDistance_a haversine_a_sym [of lat1 lon1 lat2 lon2])

lemma getDistance_antipode: "getDistance 0 0 0 180 = 6371 * pi"
  by (simp add: getDistance_a haversine_a_def Math_atan2_north)

section \<open>The two loops of a tick\<close>

lemma fold_nearby_body:
  "fold (nearby_body loc seen0 mine0) ps (s, evs) =
     (s\<lparr>lastSeenPostIds :=
          lastSeenPostIds s @ map post_id (filter (nearby_hit loc seen0 mine0) ps)\<rparr>,
      evs @ map Nearby (filter (nearby_hit loc seen0 mine0) ps))"
proof (induction ps arbitrary: s evs)
  case Nil
  show ?case by simp
next
  case (Cons p ps)
  show ?case
  proof (cases "nearby_hit loc seen0 mine0 p")
    case True
    then have "nearby_body loc seen0 mine0 p (s, evs) =
        (s\<lparr>lastSeenPostIds := lastSeenPostIds s @ [post_id p]\<rparr>, evs @ [Nearby p])"
      by (simp add: nearby_body_def nearby_hit_def Let_def)
    with True show ?thesis by (simp add: Cons.IH)
  next
    case False
    then have "nearby_body loc seen0 mine0 p (s, evs) = (s, evs)"
      by (auto simp: nearby_body_def nearby_hit_def Let_def)
    with False show ?thesis by (simp add: Cons.IH)
  qed
qed

lemma fold_collected_body:
  "fold (collected_body cur) mine0 (s, evs) =
     (s\<lparr>myPostIds :=
          filter (\<lambda>i. i \<notin> set (filter (\<lambda>j. collected_hit cur j \<noteq> None) mine0)) (myPostIds s)\<rparr>,
      evs @ map Collected (List.map_filter (collected_hit cur) mine0))"
proof (induction mine0 arbitrary: s evs)
  case Nil
  show ?case by simp
next
  case (Cons m mine0)
  show ?case
  proof (cases "collected_hit cur m")
    case None
    then have "collected_body cur m (s, evs) = (s, evs)"
      by (auto simp: collected_body_def collected_hit_def split: option.splits if_splits)
    with None show ?thesis by (simp add: Cons.IH)
  next
    case (Some q)
    then have "collected_body cur m (s, evs) =
        (s\<lparr>myPostIds := filter (\<lambda>i. i \<noteq> m) (myPostIds s)\<rparr>, evs @ [Collected q])"
      by (auto simp: collected_body_def collected_hit_def split: option.splits if_splits)
    moreover have "(\<lambda>i. i \<notin> set (filter (\<lambda>j. collected_hit cur j \<noteq> None) mine0) \<and> i \<noteq> m)
        = (\<lambda>i. i \<noteq> m \<and> i \<notin> set (filter (\<lambda>j. collected_hit cur j \<noteq> None) mine0))"
      by auto
    ultimately show ?thesis using Some by (simp add: Cons.IH)
  qed
qed

lemma filter_released:
  "filter (\<lambda>i. i \<notin> set (filter (\<lambda>j. collected_hit cur j \<noteq> None) mine)) mine =
   filter (\<lambda>i. collected_hit cur i = None) mine"
  by (rule filter_cong) auto

lemma filter_released':
  "filter (\<lambda>i. i \<in> set mine \<longrightarrow> collected_hit cur i = None) mine =
   filter (\<lambda>i. collected_hit cur i = None) mine"
  by (rule filter_cong) auto

lemma checkForUpdates_success:
  "checkForUpdates (userLocation s) (myPostIds s) (lastSeenPostIds s) (Inr cur) s =
     (s\<lparr>lastSeenPostIds := lastSeenPostIds s @ map post_id (nearby_hits s cur),
        myPostIds := filter (\<lambda>i. collected_hit cur i = None) (myPostIds s),
        posts := cur, filteredPosts := cur\<rparr>,
      map Nearby (nearby_hits s cur) @ map Collected (collected_hits s cur))"
proof (cases "userLocation s")
  case None
  then show ?thesis
    by (simp add: checkForUpdates_def nearby_hits_def collected_hits_def
        fold_collected_body filter_released')
next
  case (Some loc)
  then show ?thesis
    by (simp add: checkForUpdates_def nearby_hits_def collected_hits_def
        fold_nearby_body fold_collected_body filter_released')
qed

lemma render_effects_fields:
  "posts (render_effects s) = posts s"
  "myPostIds (render_effects s) = myPostIds s"
  "userLocation (render_effects s) = userLocation s"
  "radiusKm (render_effects s) = radiusKm s"
  "nearbyNotificationsEnabled (render_effects s) = nearbyNotificationsEnabled s"
  "favorites (render_effects s) = favorites s"
  "loading (render_effects s) = loading s"
  by (simp_all add: render_effects_def mark_initial_seen_def refilter_effect_def Let_def
      split: option.splits)

lemma render_effects_seen:
  "lastSeenPostIds (render_effects s) =
     (if posts s \<noteq> [] \<and> lastSeenPostIds s = [] then map post_id (posts s)
      else lastSeenPostIds s)"
  by (simp add: render_effects_def mark_initial_seen_def refilter_effect_def Let_def
      split: option.splits)

lemma poll_failure: "poll (Inl err) s = (s, [])"
  by (simp add: poll_def checkForUpdates_def)

lemma poll_events:
  "snd (poll (Inr cur) s) = map Nearby (nearby_hits s cur) @ map Collected (collected_hits s cur)"
  by (simp add: poll_def checkForUpdates_success)

lemma poll_myPostIds:
  "myPostIds (fst (poll (Inr cur) s)) = filter (\<lambda>i. collected_hit cur i = None) (myPostIds s)"
  by (simp add: poll_def checkForUpdates_success render_effects_fields)

lemma poll_seen:
  "lastSeenPostIds (fst (poll (Inr cur) s)) =
     (if cur \<noteq> [] \<and> lastSeenPostIds s = [] \<and> nearby_hits s cur = []
      then map post_id cur
      else lastSeenPostIds s @ map post_id (nearby_hits s cur))"
  by (simp add: poll_def checkForUpdates_success render_effects_seen)

lemma poll_fields:
  "posts (fst (poll (Inr cur) s)) = cur"
  "userLocation (fst (poll (Inr cur) s)) = userLocation s"
  "radiusKm (fst (poll (Inr cur) s)) = radiusKm s"
  "nearbyNotificationsEnabled (fst (poll (Inr cur) s)) = nearbyNotificationsEnabled s"
  "favorites (fst (poll (Inr cur) s)) = favorites s"
  by (simp_all add: poll_def checkForUpdates_success render_effects_fields)

lemma fetchPosts_fields:
  "myPostIds (fetchPosts response s) = myPostIds s"
  "lastSeenPostIds (fetchPosts response s) = lastSeenPostIds s"
  "userLocation (fetchPosts response s) = userLocation s"
  "radiusKm (fetchPosts response s) = radiusKm s"
  "nearbyNotificationsEnabled (fetchPosts response s) = nearbyNotificationsEnabled s"
  "favorites (fetchPosts response s) = favorites s"
  by (simp_all add: fetchPosts_def split: sum.splits option.splits)

lemma fetchPosts_posts:
  "posts (fetchPosts (Inr data) s) = data"
  "posts (fetchPosts (Inl err) s) = posts s"
  "filteredPosts (fetchPosts (Inl err) s) = filteredPosts s"
  by (simp_all add: fetchPosts_def)

lemma refilter_effect_fields:
  "posts (refilter_effect s) = posts s"
  "myPostIds (refilter_effect s) = myPostIds s"
  "lastSeenPostIds (refilter_effect s) = lastSeenPostIds s"
  "userLocation (refilter_effect s) = userLocation s"
  "radiusKm (refilter_effect s) = radiusKm s"
  "nearbyNotificationsEnabled (refilter_effect s) = nearbyNotificationsEnabled s"
  by (simp_all add: refilter_effect_def split: option.splits)

lemma toggleFavorite_fields:
  "myPostIds (toggleFavorite postId s) = myPostIds s"
  "lastSeenPostIds (toggleFavorite postId s) = lastSeenPostIds s"
  by (simp_all add: toggleFavorite_def Let_def)

text \<open>What each operation does to the two notification registries and to the events.\<close>

lemma step_seen:
  "lastSeenPostIds (fst (step a s)) =
     (case a of
        Poll (Inr cur) \<Rightarrow>
          if nearbyNotificationsEnabled s then lastSeenPostIds (fst (poll (Inr cur) s))
          else lastSeenPostIds s
      | Fetch (Inr data) \<Rightarrow>
          if data \<noteq> [] \<and> lastSeenPostIds s = [] then map post_id data else lastSeenPostIds s
      | _ \<Rightarrow> lastSeenPostIds s)"
  by (cases a)
     (simp_all add: poll_failure fetchPosts_fields fetchPosts_posts render_effects_seen
        refilter_effect_fields toggleFavorite_fields split: sum.splits)

lemma step_myPostIds:
  "myPostIds (fst (step a s)) =
     (case a of
        Poll (Inr cur) \<Rightarrow>
          if nearbyNotificationsEnabled s
          then filter (\<lambda>i. collected_hit cur i = None) (myPostIds s)
          else myPostIds s
      | _ \<Rightarrow> myPostIds s)"
  by (cases a)
     (simp_all add: poll_failure poll_myPostIds fetchPosts_fields render_effects_fields
        refilter_effect_fields toggleFavorite_fields split: sum.splits)

lemma step_events:
  "snd (step a s) =
     (case a of
        Poll (Inr cur) \<Rightarrow>
          if nearbyNotificationsEnabled s
          then map Nearby (nearby_hits s cur) @ map Collected (collected_hits s cur)
          else []
      | _ \<Rightarrow> [])"
  by (cases a) (simp_all add: poll_failure poll_events split: sum.splits)

lemma nearby_hits_unseen: "p \<in> set (nearby_hits s cur) \<Longrightarrow> post_id p \<notin> set (lastSeenPostIds s)"
  by (auto simp: nearby_hits_def nearby_hit_def split: option.splits)

lemma nearby_for_map_Nearby: "nearby_for i (map Nearby ps) = map Nearby (filter (\<lambda>p. post_id p = i) ps)"
  by (induction ps) (simp_all add: nearby_for_def)

lemma nearby_for_map_Collected: "nearby_for i (map Collected ps) = []"
  by (induction ps) (simp_all add: nearby_for_def)

lemma nearby_for_Nil: "nearby_for i [] = []"
  by (simp add: nearby_for_def)

lemma collected_for_Nil: "collected_for i [] = []"
  by (simp add: collected_for_def)

lemma nearby_for_append: "nearby_for i (xs @ ys) = nearby_for i xs @ nearby_for i ys"
  by (simp add: nearby_for_def)

lemma collected_for_append: "collected_for i (xs @ ys) = collected_for i xs @ collected_for i ys"
  by (simp add: collected_for_def)

lemma collected_for_map_Nearby: "collected_for i (map Nearby ps) = []"
  by (induction ps) (simp_all add: collected_for_def)

lemma collected_for_map_Collected:
  "collected_for i (map Collected ps) = map Collected (filter (\<lambda>p. post_id p = i) ps)"
  by (induction ps) (simp_all add: collected_for_def)

lemma step_seen_mono: "set (lastSeenPostIds s) \<subseteq> set (lastSeenPostIds (fst (step a s)))"
  by (auto simp: step_seen poll_seen split: action.splits sum.splits)

lemma step_no_nearby_for_seen:
  assumes "i \<in> set (lastSeenPostIds s)"
  shows "nearby_for i (snd (step a s)) = []"
proof -
  have "filter (\<lambda>p. post_id p = i) (nearby_hits s cur) = []" for cur
    using assms nearby_hits_unseen [of _ s cur] by (auto simp: filter_empty_conv)
  then show ?thesis
    by (simp add: step_events nearby_for_append nearby_for_map_Nearby nearby_for_map_Collected
        nearby_for_Nil split: action.splits sum.splits)
qed

lemma run_fst_snd:
  "fst (run (a # as) s) = fst (run as (fst (step a s)))"
  "snd (run (a # as) s) = snd (step a s) @ snd (run as (fst (step a s)))"
  by (simp_all add: split_beta Let_def)

lemma run_Nil: "fst (run [] s) = s" "snd (run [] s) = []"
  by simp_all

lemma getDistance_here_chair:
  "getDistance (fst here) (snd here) (latitude chair) (longitude chair) = 0"
  by (simp add: here_def chair_def getDistance_self)

lemma getDistance_here_desk:
  "getDistance (fst here) (snd here) (latitude desk) (longitude desk) = 6371 * pi"
  by (simp add: here_def desk_def getDistance_antipode)

lemma desk_is_far: "\<not> 6371 * pi \<le> (1::real)"
proof -
  have "(2::real) \<le> pi" by (rule pi_ge_two)
  then show ?thesis by simp
qed

section \<open>Ownership, baseline and the sample states\<close>

lemma find_SomeD: "find P xs = Some x \<Longrightarrow> x \<in> set xs \<and> P x"
  by (induction xs) (auto split: if_splits)

lemma collected_hit_Some:
  "collected_hit cur m = Some q \<Longrightarrow> post_id q = m \<and> q \<in> set cur \<and> status q = ''collected''"
  by (auto simp: collected_hit_def split: option.splits if_splits dest: find_SomeD)

lemma collected_hit_None_absent: "m \<notin> post_id ` set cur \<Longrightarrow> collected_hit cur m = None"
  by (auto simp: collected_hit_def split: option.splits dest: find_SomeD)

lemma in_set_map_filter: "y \<in> set (List.map_filter f xs) \<longleftrightarrow> (\<exists>x \<in> set xs. f x = Some y)"
  by (induction xs) (auto split: option.splits)

lemma poll_Collected_iff:
  "Collected p \<in> set (snd (poll (Inr cur) s)) \<longleftrightarrow>
     (\<exists>i \<in> set (myPostIds s). collected_hit cur i = Some p)"
  by (simp add: poll_events collected_hits_def image_iff in_set_map_filter)

lemma poll_Nearby_iff:
  "Nearby p \<in> set (snd (poll (Inr cur) s)) \<longleftrightarrow> p \<in> set (nearby_hits s cur)"
  by (auto simp: poll_events)

lemma poll_collected_removed:
  assumes "Collected p \<in> set (snd (poll r s))"
  shows "post_id p \<notin> set (myPostIds (fst (poll r s)))"
proof (cases r)
  case (Inl err)
  with assms show ?thesis by (simp add: poll_failure)
next
  case (Inr cur)
  with assms obtain i where "collected_hit cur i = Some p"
    by (auto simp: poll_Collected_iff)
  moreover from this have "post_id p = i" by (simp add: collected_hit_Some)
  ultimately show ?thesis using Inr by (simp add: poll_myPostIds)
qed

lemma poll_absent_kept:
  assumes "i \<in> set (myPostIds s)" and "i \<notin> post_id ` set cur"
  shows "i \<in> set (myPostIds (fst (poll (Inr cur) s)))"
    and "collected_for i (snd (poll (Inr cur) s)) = []"
proof -
  from assms(2) have none: "collected_hit cur i = None" by (rule collected_hit_None_absent)
  with assms(1) show "i \<in> set (myPostIds (fst (poll (Inr cur) s)))"
    by (simp add: poll_myPostIds)
  have "post_id q \<noteq> i" if "q \<in> set (collected_hits s cur)" for q
  proof -
    from that obtain m where "collected_hit cur m = Some q"
      by (auto simp: collected_hits_def in_set_map_filter)
    with none collected_hit_Some [of cur m q] show ?thesis by auto
  qed
  then have "filter (\<lambda>p. post_id p = i) (collected_hits s cur) = []"
    by (auto simp: filter_empty_conv)
  then show "collected_for i (snd (poll (Inr cur) s)) = []"
    by (simp add: poll_events collected_for_append collected_for_map_Nearby
        collected_for_map_Collected)
qed

lemma poll_released_only_collected:
  assumes "i \<in> set (myPostIds s)" and "i \<notin> set (myPostIds (fst (poll (Inr cur) s)))"
  shows "\<exists>p \<in> set cur. post_id p = i \<and> status p = ''collected''"
proof -
  from assms obtain q where "collected_hit cur i = Some q"
    by (auto simp: poll_myPostIds)
  then show ?thesis using collected_hit_Some by blast
qed

lemma filter_is_nearby_events:
  "filter is_nearby (map Nearby ps @ map Collected qs) = map Nearby ps"
  by (simp add: filter_empty_conv filter_id_conv)


lemma map_event_id_Nearby: "map event_id (map Nearby ps) = map post_id ps"
  by simp

lemma poll_nearby_events:
  "filter is_nearby (snd (poll (Inr cur) s)) = map Nearby (nearby_hits s cur)"
  by (simp only: poll_events filter_is_nearby_events)


lemma poll_seen_by_events:
  "lastSeenPostIds (fst (poll (Inr cur) s)) =
     (if cur \<noteq> [] \<and> lastSeenPostIds s = [] \<and> filter is_nearby (snd (poll (Inr cur) s)) = []
      then map post_id cur
      else lastSeenPostIds s @ map event_id (filter is_nearby (snd (poll (Inr cur) s))))"
  by (simp add: poll_seen poll_nearby_events)

lemma checkForUpdates_seen_by_events:
  "lastSeenPostIds (fst (checkForUpdates (userLocation s) (myPostIds s) (lastSeenPostIds s) (Inr cur) s)) =
     lastSeenPostIds s @
     map event_id (filter is_nearby
       (snd (checkForUpdates (userLocation s) (myPostIds s) (lastSeenPostIds s) (Inr cur) s)))"
  by (simp add: checkForUpdates_success filter_is_nearby_events)

lemma nearby_hits_no_location: "userLocation s = None \<Longrightarrow> nearby_hits s cur = []"
  by (simp add: nearby_hits_def)

lemma feed_load_marks_all:
  assumes "lastSeenPostIds s = []" and "data \<noteq> []"
  shows "lastSeenPostIds (fst (step (Fetch (Inr data)) s)) = map post_id data"
  using assms by (simp add: step_seen del: step.simps)




lemma step_SetLocation_fields:
  "userLocation (fst (step (SetLocation loc) s)) = Some loc"
  "lastSeenPostIds (fst (step (SetLocation loc) s)) = lastSeenPostIds s"
  "myPostIds (fst (step (SetLocation loc) s)) = myPostIds s"
  by (simp_all add: refilter_effect_fields)

lemma nearby_hits_mem:
  "p \<in> set (nearby_hits s cur) \<longleftrightarrow>
     (\<exists>loc. userLocation s = Some loc \<and> p \<in> set cur \<and>
        nearby_hit loc (lastSeenPostIds s) (myPostIds s) p)"
  by (cases "userLocation s") (simp_all add: nearby_hits_def conj_commute)

lemma far_item_unmarked:
  assumes "lastSeenPostIds s \<noteq> []" and "userLocation s = Some loc"
    and "distinct (map post_id cur)" and "p \<in> set cur"
    and "post_id p \<notin> set (lastSeenPostIds s)"
    and "\<not> getDistance (fst loc) (snd loc) (latitude p) (longitude p) \<le> 1"
  shows "post_id p \<notin> set (lastSeenPostIds (fst (poll (Inr cur) s)))"
proof
  assume "post_id p \<in> set (lastSeenPostIds (fst (poll (Inr cur) s)))"
  with assms(1,5) obtain q where q: "q \<in> set (nearby_hits s cur)" "post_id q = post_id p"
    by (auto simp: poll_seen)
  then have "q \<in> set cur" and hit: "nearby_hit loc (lastSeenPostIds s) (myPostIds s) q"
    using assms(2) by (auto simp: nearby_hits_mem)
  from assms(3) have "inj_on post_id (set cur)" by (simp add: distinct_map)
  with \<open>q \<in> set cur\<close> assms(4) q(2) have "q = p" by (auto dest: inj_onD)
  with hit assms(6) show False by (simp add: nearby_hit_def)
qed

lemma far_item_raised_later:
  assumes "post_id p \<notin> set (lastSeenPostIds (fst (poll (Inr cur) s)))"
    and "status p = ''active''" and "post_id p \<notin> set (myPostIds s)"
    and "getDistance (fst loc2) (snd loc2) (latitude p) (longitude p) \<le> 1"
    and "p \<in> set cur2"
  shows "Nearby p \<in> set (snd (poll (Inr cur2) (fst (step (SetLocation loc2) (fst (poll (Inr cur) s))))))"
proof -
  let ?s2 = "fst (step (SetLocation loc2) (fst (poll (Inr cur) s)))"
  have loc: "userLocation ?s2 = Some loc2"
    and seen: "lastSeenPostIds ?s2 = lastSeenPostIds (fst (poll (Inr cur) s))"
    and mine: "myPostIds ?s2 = filter (\<lambda>i. collected_hit cur i = None) (myPostIds s)"
    by (simp_all only: step_SetLocation_fields poll_myPostIds)
  from assms(3) have "post_id p \<notin> set (myPostIds ?s2)" by (simp only: mine) simp
  with assms(1,2,4) have "nearby_hit loc2 (lastSeenPostIds ?s2) (myPostIds ?s2) p"
    by (simp only: nearby_hit_def seen) simp
  with loc assms(5) have "p \<in> set (nearby_hits ?s2 cur2)"
    unfolding nearby_hits_mem by blast
  then show ?thesis by (simp only: poll_Nearby_iff)
qed

lemma settled_state_fields:
  "lastSeenPostIds settled_state = [''p1'']"
  "userLocation settled_state = Some here"
  "myPostIds settled_state = []"
  "nearbyNotificationsEnabled settled_state"
  by (simp_all add: settled_state_def initial_state_def chair_def here_def fetchPosts_def
      render_effects_def refilter_effect_def mark_initial_seen_def filterPostsByRadius_def
      getDistance_self Let_def)

lemma located_state_fields:
  "lastSeenPostIds located_state = []"
  "userLocation located_state = Some here"
  "myPostIds located_state = []"
  "nearbyNotificationsEnabled located_state"
  by (simp_all add: located_state_def initial_state_def fetchPosts_def
      render_effects_def refilter_effect_def mark_initial_seen_def filterPostsByRadius_def)

lemma sample_ids: "post_id chair = ''p1''" "post_id desk = ''p2''" "post_id chair_collected = ''p1''"
  by (simp_all add: chair_def desk_def chair_collected_def)

lemma sample_status:
  "status chair = ''active''" "status desk = ''active''" "status chair_collected = ''collected''"
  by (simp_all add: chair_def desk_def chair_collected_def)

lemma getDistance_there_desk:
  "getDistance (fst there) (snd there) (latitude desk) (longitude desk) = 0"
  by (simp add: there_def desk_def getDistance_self)

lemma collected_hit_chair: "collected_hit [chair_collected] ''p1'' = Some chair_collected"
  by (simp add: collected_hit_def sample_ids sample_status)

lemma empty_board_state:
  "fst (step (Fetch (Inr [])) (fst (step (SetLocation here) initial_state))) =
     initial_state\<lparr>userLocation := Some here, loading := False\<rparr>"
  by (simp add: initial_state_def fetchPosts_def refilter_effect_def render_effects_def
      mark_initial_seen_def filterPostsByRadius_def)

lemma empty_board_nearby_hits:
  "nearby_hits (initial_state\<lparr>userLocation := Some here, loading := False\<rparr>) [chair, desk] = [chair]"
  by (simp add: nearby_hits_def nearby_hit_def initial_state_def getDistance_here_chair
      getDistance_here_desk desk_is_far sample_status)

lemma empty_board_collected_hits:
  "collected_hits (initial_state\<lparr>userLocation := Some here, loading := False\<rparr>) cur = []"
  by (simp add: collected_hits_def initial_state_def)

section \<open>Ticks that act on a closure\<close>

lemma checkForUpdates_closure:
  "checkForUpdates (cl_location c) (cl_myPostIds c) (cl_lastSeenPostIds c) (Inr cur) s =
     (s\<lparr>lastSeenPostIds := lastSeenPostIds s @ map post_id (tick_nearby_hits c cur),
        myPostIds :=
          filter (\<lambda>i. i \<notin> set (filter (\<lambda>j. collected_hit cur j \<noteq> None) (cl_myPostIds c)))
            (myPostIds s),
        posts := cur, filteredPosts := cur\<rparr>,
      map Nearby (tick_nearby_hits c cur) @ map Collected (tick_collected_hits c cur))"
proof (cases "cl_location c")
  case None
  then show ?thesis
    by (simp add: checkForUpdates_def tick_nearby_hits_def tick_collected_hits_def
        fold_collected_body del: set_filter)
next
  case (Some loc)
  then show ?thesis
    by (simp add: checkForUpdates_def tick_nearby_hits_def tick_collected_hits_def
        fold_nearby_body fold_collected_body del: set_filter)
qed

lemma tick_done_failure: "tick_done c (Inl err) s = (s, [])"
  by (simp add: tick_done_def checkForUpdates_def)

lemma tick_done_events:
  "snd (tick_done c (Inr cur) s) =
     map Nearby (tick_nearby_hits c cur) @ map Collected (tick_collected_hits c cur)"
  by (simp add: tick_done_def checkForUpdates_closure)

lemma tick_done_seen:
  "lastSeenPostIds (fst (tick_done c (Inr cur) s)) =
     (if cur \<noteq> [] \<and> lastSeenPostIds s = [] \<and> tick_nearby_hits c cur = []
      then map post_id cur
      else lastSeenPostIds s @ map post_id (tick_nearby_hits c cur))"
  by (simp add: tick_done_def checkForUpdates_closure render_effects_seen del: set_filter)

lemma tick_done_myPostIds:
  "myPostIds (fst (tick_done c (Inr cur) s)) =
     filter (\<lambda>i. i \<notin> set (filter (\<lambda>j. collected_hit cur j \<noteq> None) (cl_myPostIds c)))
       (myPostIds s)"
  by (simp add: tick_done_def checkForUpdates_closure render_effects_fields del: set_filter)

lemma tick_done_location: "userLocation (fst (tick_done c r s)) = userLocation s"
proof (cases r)
  case (Inl err)
  then show ?thesis by (simp add: tick_done_failure)
next
  case (Inr cur)
  then show ?thesis
    by (simp add: tick_done_def checkForUpdates_closure render_effects_fields)
qed

lemma tick_done_enabled:
  "nearbyNotificationsEnabled (fst (tick_done c r s)) = nearbyNotificationsEnabled s"
proof (cases r)
  case (Inl err)
  then show ?thesis by (simp add: tick_done_failure)
next
  case (Inr cur)
  then show ?thesis
    by (simp add: tick_done_def checkForUpdates_closure render_effects_fields)
qed

lemma poll_is_tick_done: "poll response s = tick_done (capture s) response s"
  by (simp add: poll_def tick_done_def capture_def)

lemma tick_nearby_hits_unseen:
  "p \<in> set (tick_nearby_hits c cur) \<Longrightarrow> post_id p \<notin> set (cl_lastSeenPostIds c)"
  by (auto simp: tick_nearby_hits_def nearby_hit_def split: option.splits)

lemma tick_done_seen_mono:
  "set (lastSeenPostIds s) \<subseteq> set (lastSeenPostIds (fst (tick_done c r s)))"
  by (cases r) (auto simp: tick_done_failure tick_done_seen)

lemma tick_done_no_nearby_for:
  assumes "i \<in> set (cl_lastSeenPostIds c)"
  shows "nearby_for i (snd (tick_done c r s)) = []"
proof (cases r)
  case (Inl err)
  then show ?thesis by (simp add: tick_done_failure nearby_for_Nil)
next
  case (Inr cur)
  have "filter (\<lambda>p. post_id p = i) (tick_nearby_hits c cur) = []"
    using assms tick_nearby_hits_unseen [of _ c cur] by (auto simp: filter_empty_conv)
  with Inr show ?thesis
    by (simp add: tick_done_events nearby_for_append nearby_for_map_Nearby
        nearby_for_map_Collected)
qed

lemma submit_done_seen: "lastSeenPostIds (submit_done m r s) = lastSeenPostIds s"
  by (simp add: submit_done_def Let_def split: sum.splits)

lemma set_without: "set (without k xs) \<subseteq> set xs"
  unfolding without_def by (auto dest: in_set_takeD in_set_dropD)

text \<open>
  An id that is in the seen list, and in the seen list of every pending tick, raises
  no "nearby" event, and both remain so.
\<close>

lemma sys_step_seen_by_all:
  assumes "seen_by_all i \<sigma>"
  shows "nearby_for i (snd (sys_step x \<sigma>)) = [] \<and> seen_by_all i (fst (sys_step x \<sigma>))"
proof -
  from assms have live: "i \<in> set (lastSeenPostIds (app \<sigma>))"
    and pend: "\<And>c. c \<in> set (ticks \<sigma>) \<Longrightarrow> i \<in> set (cl_lastSeenPostIds c)"
    by (simp_all add: seen_by_all_def list_all_iff)
  show ?thesis
  proof (cases x)
    case (Op a)
    from live step_seen_mono [of "app \<sigma>" a]
    have "i \<in> set (lastSeenPostIds (fst (step a (app \<sigma>))))" by blast
    with Op live pend show ?thesis
      by (simp add: split_beta step_no_nearby_for_seen seen_by_all_def list_all_iff
          del: step.simps)
  next
    case TickStart
    with live pend show ?thesis
      by (simp add: nearby_for_Nil seen_by_all_def list_all_iff capture_def)
  next
    case (TickDone k r)
    show ?thesis
    proof (cases "k < length (ticks \<sigma>)")
      case True
      then have "ticks \<sigma> ! k \<in> set (ticks \<sigma>)" by simp
      then have c: "i \<in> set (cl_lastSeenPostIds (ticks \<sigma> ! k))" by (rule pend)
      from live tick_done_seen_mono [of "app \<sigma>" "ticks \<sigma> ! k" r]
      have "i \<in> set (lastSeenPostIds (fst (tick_done (ticks \<sigma> ! k) r (app \<sigma>))))" by blast
      moreover have "\<And>c. c \<in> set (without k (ticks \<sigma>)) \<Longrightarrow> i \<in> set (cl_lastSeenPostIds c)"
        using set_without [of k "ticks \<sigma>"] pend by blast
      ultimately show ?thesis using TickDone True c
        by (simp add: split_beta tick_done_no_nearby_for seen_by_all_def list_all_iff)
    next
      case False
      with TickDone assms show ?thesis by (simp add: nearby_for_Nil)
    qed
  next
    case SubmitStart
    with live pend show ?thesis
      by (simp add: nearby_for_Nil seen_by_all_def list_all_iff)
  next
    case (SubmitDone k r)
    with live pend show ?thesis
      by (simp add: nearby_for_Nil seen_by_all_def list_all_iff submit_done_seen)
  qed
qed

lemma sys_run_fst_snd:
  "fst (sys_run (x # xs) \<sigma>) = fst (sys_run xs (fst (sys_step x \<sigma>)))"
  "snd (sys_run (x # xs) \<sigma>) = snd (sys_step x \<sigma>) @ snd (sys_run xs (fst (sys_step x \<sigma>)))"
  by (simp_all add: split_beta Let_def)

lemma sys_run_Nil: "fst (sys_run [] \<sigma>) = \<sigma>" "snd (sys_run [] \<sigma>) = []"
  by simp_all

lemma sys_run_no_nearby_for:
  "seen_by_all i \<sigma> \<Longrightarrow> nearby_for i (snd (sys_run xs \<sigma>)) = []"
proof (induction xs arbitrary: \<sigma>)
  case Nil
  show ?case by (simp add: nearby_for_Nil)
next
  case (Cons x xs)
  from sys_step_seen_by_all [OF Cons.prems, of x]
  have now: "nearby_for i (snd (sys_step x \<sigma>)) = []"
    and inv: "seen_by_all i (fst (sys_step x \<sigma>))"
    by blast+
  from Cons.IH [OF inv] now show ?case
    by (simp add: sys_run_fst_snd nearby_for_append del: sys_run.simps sys_step.simps)
qed

lemma seen_by_all_no_ticks:
  "i \<in> set (lastSeenPostIds s) \<Longrightarrow> seen_by_all i \<lparr>app = s, ticks = [], submits = subs\<rparr>"
  by (simp add: seen_by_all_def)

section \<open>Sample traces\<close>

lemma owner_state_fields:
  "lastSeenPostIds owner_state = [''p1'']"
  "userLocation owner_state = None"
  "myPostIds owner_state = [''p1'']"
  "nearbyNotificationsEnabled owner_state"
  by (simp_all add: owner_state_def quiet_def without_def submit_done_def initial_state_def
      chair_def fetchPosts_def render_effects_def refilter_effect_def mark_initial_seen_def
      Let_def)

lemma starts_json_value_maybe: "\<not> starts_json_value ''maybe''"
  by (simp add: starts_json_value_def JSON_whitespace_def)

lemma starts_json_value_array: "starts_json_value '' [\"p1\"]''"
  by (simp add: starts_json_value_def JSON_whitespace_def)

lemma capture_located:
  "capture located_state =
     \<lparr>cl_location = Some here, cl_myPostIds = [], cl_lastSeenPostIds = []\<rparr>"
  by (simp add: capture_def located_state_fields)

lemma located_tick_hits:
  "tick_nearby_hits \<lparr>cl_location = Some here, cl_myPostIds = [], cl_lastSeenPostIds = []\<rparr> [chair]
     = [chair]"
  "tick_collected_hits \<lparr>cl_location = Some here, cl_myPostIds = [], cl_lastSeenPostIds = []\<rparr> cur
     = []"
  by (simp_all add: tick_nearby_hits_def tick_collected_hits_def nearby_hit_def
      getDistance_here_chair sample_status)

lemma owner_poll_collected:
  assumes "userLocation s = None"
  shows "snd (poll (Inr [chair_collected]) s) =
     map Collected (List.map_filter (collected_hit [chair_collected]) (myPostIds s))"
  using assms by (simp add: poll_events nearby_hits_def collected_hits_def)

lemma tick_done_empty_registries:
  assumes "cl_lastSeenPostIds c = []" and "cl_myPostIds c = []"
  shows "snd (tick_done c (Inr data) s) =
     (case cl_location c of
        None \<Rightarrow> []
      | Some loc \<Rightarrow>
          map Nearby (filter (\<lambda>p.
            getDistance (fst loc) (snd loc) (latitude p) (longitude p) \<le> 1 \<and>
            status p = ''active'') data))"
  using assms
  by (simp add: tick_done_events tick_nearby_hits_def tick_collected_hits_def
      nearby_hit_def [abs_def] split: option.splits)

lemma tick_done_events_nearby:
  assumes "cl_myPostIds c = []"
  shows "snd (tick_done c (Inr data) s) = map Nearby (tick_nearby_hits c data)"
  using assms by (simp add: tick_done_events tick_collected_hits_def)

lemma initial_state_fields:
  "lastSeenPostIds initial_state = []" "myPostIds initial_state = []"
  "userLocation initial_state = None"
  by (simp_all add: initial_state_def)

section \<open>Claims\<close>

text \<open>
  C1.  The claim: once an id is in the seen set, no later tick raises a "nearby" event
  for it.  The code does not keep it when a tick is pending while the seen set grows,
  because the tick tests the seen list of its closure.  The device is located, the
  board is empty and nothing is seen.  First trace: the interval fires twice before
  the first fetch settles and both fetches return the chair next to the device; the
  first tick raises "nearby" for the chair and marks it seen, the second raises
  "nearby" for it again.  Second trace: a tick is pending when a feed load returns the
  chair and the baseline marks it seen; the tick then raises "nearby" for it.
\<close>

theorem seen_id_raised_again:
  "lastSeenPostIds (app (fst (sys_run [TickStart, TickStart, TickDone 0 (Inr [chair])]
     (quiet located_state)))) = [''p1''] \<and>
   snd (sys_run [TickStart, TickStart, TickDone 0 (Inr [chair]), TickDone 0 (Inr [chair])]
     (quiet located_state)) = [Nearby chair, Nearby chair] \<and>
   lastSeenPostIds (app (fst (sys_run [TickStart, Op (Fetch (Inr [chair]))]
     (quiet located_state)))) = [''p1''] \<and>
   snd (sys_run [TickStart, Op (Fetch (Inr [chair])), TickDone 0 (Inr [chair])]
     (quiet located_state)) = [Nearby chair]"
proof -
  let ?c = "\<lparr>cl_location = Some here, cl_myPostIds = [], cl_lastSeenPostIds = []\<rparr>"
  let ?s1 = "fst (tick_done ?c (Inr [chair]) located_state)"
  let ?s2 = "fst (step (Fetch (Inr [chair])) located_state)"
  have start: "sys_step TickStart (quiet located_state) =
      (\<lparr>app = located_state, ticks = [?c], submits = []\<rparr>, [])"
    by (simp add: quiet_def located_state_fields capture_located)
  have start2: "sys_step TickStart \<lparr>app = located_state, ticks = [?c], submits = []\<rparr> =
      (\<lparr>app = located_state, ticks = [?c, ?c], submits = []\<rparr>, [])"
    by (simp add: located_state_fields capture_located)
  have done1: "sys_step (TickDone 0 (Inr [chair]))
      \<lparr>app = located_state, ticks = [?c, ?c], submits = []\<rparr> =
      (\<lparr>app = ?s1, ticks = [?c], submits = []\<rparr>, [Nearby chair])"
    by (simp add: split_beta without_def tick_done_events located_tick_hits)
  have seen1: "lastSeenPostIds ?s1 = [''p1'']"
    by (simp add: tick_done_seen located_tick_hits located_state_fields sample_ids)
  have done2: "snd (sys_step (TickDone 0 (Inr [chair])) \<lparr>app = ?s1, ticks = [?c], submits = []\<rparr>) =
      [Nearby chair]"
    by (simp add: split_beta tick_done_events located_tick_hits)
  have fetch: "sys_step (Op (Fetch (Inr [chair]))) \<lparr>app = located_state, ticks = [?c], submits = []\<rparr> =
      (\<lparr>app = ?s2, ticks = [?c], submits = []\<rparr>, [])"
    by (simp add: split_beta)
  have seen2: "lastSeenPostIds ?s2 = [''p1'']"
    by (simp add: step_seen located_state_fields sample_ids del: step.simps)
  have done3: "snd (sys_step (TickDone 0 (Inr [chair])) \<lparr>app = ?s2, ticks = [?c], submits = []\<rparr>) =
      [Nearby chair]"
    by (simp add: split_beta tick_done_events located_tick_hits del: step.simps)
  show ?thesis
    by (simp add: sys_run_fst_snd sys_run_Nil start start2 done1 seen1 done2 fetch seen2 done3
        del: sys_run.simps sys_step.simps step.simps)
qed

text \<open>
  C2.  The claim: at most one "collected" event is ever raised for an owned id.  The
  code raises two when a submission is pending across the tick that raises the first:
  \<open>handleSubmitPost\<close> sets the owned ids to the list of its closure with the new id
  appended, which puts back the id the tick removed.  The user owns the chair and
  starts a submission; a tick finds the chair collected, raises the event and removes
  the id; the submission settles with the id \<open>p2\<close> and the owned ids are \<open>p1\<close> and
  \<open>p2\<close>; the next tick raises the event for the chair again.
\<close>

theorem owned_id_collected_twice:
  "myPostIds (app (fst (sys_run [SubmitStart, Op (Poll (Inr [chair_collected]))]
     (quiet owner_state)))) = [] \<and>
   myPostIds (app (fst (sys_run
     [SubmitStart, Op (Poll (Inr [chair_collected])), SubmitDone 0 (Inr ''p2'')]
     (quiet owner_state)))) = [''p1'', ''p2''] \<and>
   snd (sys_run
     [SubmitStart, Op (Poll (Inr [chair_collected])), SubmitDone 0 (Inr ''p2''),
      Op (Poll (Inr [chair_collected]))]
     (quiet owner_state)) = [Collected chair_collected, Collected chair_collected]"
proof -
  let ?s1 = "fst (poll (Inr [chair_collected]) owner_state)"
  let ?s2 = "submit_done [''p1''] (Inr ''p2'') ?s1"
  have start: "sys_step SubmitStart (quiet owner_state) =
      (\<lparr>app = owner_state, ticks = [], submits = [[''p1'']]\<rparr>, [])"
    by (simp add: quiet_def owner_state_fields)
  have ev1: "snd (poll (Inr [chair_collected]) owner_state) = [Collected chair_collected]"
    by (simp add: owner_poll_collected owner_state_fields collected_hit_chair)
  have poll1: "sys_step (Op (Poll (Inr [chair_collected])))
      \<lparr>app = owner_state, ticks = [], submits = [[''p1'']]\<rparr> =
      (\<lparr>app = ?s1, ticks = [], submits = [[''p1'']]\<rparr>, [Collected chair_collected])"
    by (simp add: split_beta owner_state_fields ev1)
  have mine1: "myPostIds ?s1 = []"
    by (simp add: poll_myPostIds owner_state_fields collected_hit_chair)
  have sub: "sys_step (SubmitDone 0 (Inr ''p2'')) \<lparr>app = ?s1, ticks = [], submits = [[''p1'']]\<rparr> =
      (\<lparr>app = ?s2, ticks = [], submits = []\<rparr>, [])"
    by (simp add: without_def)
  have mine2: "myPostIds ?s2 = [''p1'', ''p2'']"
    by (simp add: submit_done_def)
  have en2: "nearbyNotificationsEnabled ?s2" and loc2: "userLocation ?s2 = None"
    by (simp_all add: submit_done_def poll_fields owner_state_fields)
  have p2: "collected_hit [chair_collected] ''p2'' = None"
    by (simp add: collected_hit_def sample_ids)
  have ev2: "snd (sys_step (Op (Poll (Inr [chair_collected])))
      \<lparr>app = ?s2, ticks = [], submits = []\<rparr>) = [Collected chair_collected]"
    by (simp add: split_beta en2 owner_poll_collected [OF loc2] mine2 collected_hit_chair p2)
  show ?thesis
    by (simp add: sys_run_fst_snd sys_run_Nil start poll1 mine1 sub mine2 ev2
        del: sys_run.simps sys_step.simps step.simps)
qed

text \<open>
  C3, as amended.  Start from empty registries, the closure of a pending tick
  included, and let a fetch return a non-empty list.  The feed load (\<open>fetchPosts\<close>)
  raises no event and leaves every fetched id in the seen set.  A poll tick runs the
  nearby step before the baseline: it raises "nearby" for the active items within the
  nearby radius of the location of its closure, none when there is no location, and
  no other event; if it raises none, the seen set becomes the fetched ids, otherwise
  it becomes the ids of the events raised.  After a baseline taken while no tick is
  pending, whatever happens next, overlapping ticks included, no "nearby" event is
  raised for an id of that baseline.
\<close>

theorem first_fetch_baseline:
  assumes "lastSeenPostIds s = []" and "myPostIds s = []" and "data \<noteq> []"
    and "cl_lastSeenPostIds c = []" and "cl_myPostIds c = []"
  shows "snd (step (Fetch (Inr data)) s) = [] \<and>
         lastSeenPostIds (fst (step (Fetch (Inr data)) s)) = map post_id data \<and>
         poll (Inr data) s = tick_done (capture s) (Inr data) s \<and>
         snd (tick_done c (Inr data) s) =
           (case cl_location c of
              None \<Rightarrow> []
            | Some loc \<Rightarrow>
                map Nearby (filter (\<lambda>p.
                  getDistance (fst loc) (snd loc) (latitude p) (longitude p) \<le> 1 \<and>
                  status p = ''active'') data)) \<and>
         lastSeenPostIds (fst (tick_done c (Inr data) s)) =
           (if snd (tick_done c (Inr data) s) = [] then map post_id data
            else map event_id (snd (tick_done c (Inr data) s))) \<and>
         (\<forall>p occs subs. p \<in> set data \<longrightarrow>
            nearby_for (post_id p)
              (snd (sys_run occs
                 \<lparr>app = fst (step (Fetch (Inr data)) s), ticks = [], submits = subs\<rparr>)) = []) \<and>
         (\<forall>p occs subs. snd (tick_done c (Inr data) s) = [] \<and> p \<in> set data \<longrightarrow>
            nearby_for (post_id p)
              (snd (sys_run occs
                 \<lparr>app = fst (tick_done c (Inr data) s), ticks = [], submits = subs\<rparr>)) = [])"
proof (intro conjI allI impI)
  show "snd (step (Fetch (Inr data)) s) = []" by simp
next
  show "lastSeenPostIds (fst (step (Fetch (Inr data)) s)) = map post_id data"
    using assms(1,3) by (rule feed_load_marks_all)
next
  show "poll (Inr data) s = tick_done (capture s) (Inr data) s"
    by (rule poll_is_tick_done)
next
  show "snd (tick_done c (Inr data) s) =
      (case cl_location c of
         None \<Rightarrow> []
       | Some loc \<Rightarrow>
           map Nearby (filter (\<lambda>p.
             getDistance (fst loc) (snd loc) (latitude p) (longitude p) \<le> 1 \<and>
             status p = ''active'') data))"
    using assms(4,5) by (rule tick_done_empty_registries)
next
  show "lastSeenPostIds (fst (tick_done c (Inr data) s)) =
      (if snd (tick_done c (Inr data) s) = [] then map post_id data
       else map event_id (snd (tick_done c (Inr data) s)))"
    using assms(1,3) by (simp add: tick_done_seen tick_done_events_nearby [OF assms(5)])
next
  fix p occs subs
  assume "p \<in> set data"
  then have "post_id p \<in> set (lastSeenPostIds (fst (step (Fetch (Inr data)) s)))"
    by (simp only: feed_load_marks_all [OF assms(1,3)]) simp
  then have "seen_by_all (post_id p)
      \<lparr>app = fst (step (Fetch (Inr data)) s), ticks = [], submits = subs\<rparr>"
    by (rule seen_by_all_no_ticks)
  then show "nearby_for (post_id p)
      (snd (sys_run occs
         \<lparr>app = fst (step (Fetch (Inr data)) s), ticks = [], submits = subs\<rparr>)) = []"
    by (rule sys_run_no_nearby_for)
next
  fix p occs subs
  assume a: "snd (tick_done c (Inr data) s) = [] \<and> p \<in> set data"
  with assms(1,3) have "lastSeenPostIds (fst (tick_done c (Inr data) s)) = map post_id data"
    by (simp add: tick_done_seen tick_done_events_nearby [OF assms(5)])
  with a have "post_id p \<in> set (lastSeenPostIds (fst (tick_done c (Inr data) s)))" by simp
  then have "seen_by_all (post_id p)
      \<lparr>app = fst (tick_done c (Inr data) s), ticks = [], submits = subs\<rparr>"
    by (rule seen_by_all_no_ticks)
  then show "nearby_for (post_id p)
      (snd (sys_run occs
         \<lparr>app = fst (tick_done c (Inr data) s), ticks = [], submits = subs\<rparr>)) = []"
    by (rule sys_run_no_nearby_for)
qed

theorem first_fetch_baseline_witness:
  "lastSeenPostIds initial_state = [] \<and> myPostIds initial_state = [] \<and> [chair, desk] \<noteq> [] \<and>
   cl_lastSeenPostIds (capture initial_state) = [] \<and> cl_myPostIds (capture initial_state) = [] \<and>
   chair \<in> set [chair, desk] \<and>
   snd (step (Fetch (Inr [chair, desk])) initial_state) = [] \<and>
   lastSeenPostIds (fst (step (Fetch (Inr [chair, desk])) initial_state)) =
     map post_id [chair, desk] \<and>
   snd (poll (Inr [chair, desk]) initial_state) = [] \<and>
   lastSeenPostIds (fst (poll (Inr [chair, desk]) initial_state)) = map post_id [chair, desk] \<and>
   nearby_for (post_id chair)
     (snd (sys_run
        [Op (SetLocation here), TickStart, TickStart,
         TickDone 0 (Inr [chair, desk]), TickDone 0 (Inr [chair, desk])]
        \<lparr>app = fst (step (Fetch (Inr [chair, desk])) initial_state), ticks = [],
          submits = []\<rparr>)) = [] \<and>
   lastSeenPostIds located_state = [] \<and> myPostIds located_state = [] \<and>
   cl_lastSeenPostIds (capture located_state) = [] \<and> cl_myPostIds (capture located_state) = [] \<and>
   snd (poll (Inr [chair, desk]) located_state) = [Nearby chair] \<and>
   lastSeenPostIds (fst (poll (Inr [chair, desk]) located_state)) = [''p1'']"
proof -
  have h1: "lastSeenPostIds initial_state = []" and h2: "myPostIds initial_state = []"
    by (simp_all add: initial_state_fields)
  have h3: "[chair, desk] \<noteq> []" by simp
  have h4: "cl_lastSeenPostIds (capture initial_state) = []"
    and h5: "cl_myPostIds (capture initial_state) = []"
    and h6: "cl_location (capture initial_state) = None"
    by (simp_all add: capture_def initial_state_fields)
  have h7: "chair \<in> set [chair, desk]" by simp
  note t = first_fetch_baseline [OF h1 h2 h3 h4 h5]
  from t have p: "poll (Inr [chair, desk]) initial_state =
      tick_done (capture initial_state) (Inr [chair, desk]) initial_state"
    by blast
  from t h6 have quiet_tick: "snd (poll (Inr [chair, desk]) initial_state) = []"
    by (simp add: p)
  from t quiet_tick
  have seen: "lastSeenPostIds (fst (poll (Inr [chair, desk]) initial_state)) =
      map post_id [chair, desk]"
    by (simp add: p)
  from t h7 have later: "nearby_for (post_id chair)
     (snd (sys_run
        [Op (SetLocation here), TickStart, TickStart,
         TickDone 0 (Inr [chair, desk]), TickDone 0 (Inr [chair, desk])]
        \<lparr>app = fst (step (Fetch (Inr [chair, desk])) initial_state), ticks = [],
          submits = []\<rparr>)) = []"
    by blast
  have g1: "lastSeenPostIds located_state = []" and g2: "myPostIds located_state = []"
    by (simp_all add: located_state_fields)
  have g4: "cl_lastSeenPostIds (capture located_state) = []"
    and g5: "cl_myPostIds (capture located_state) = []"
    and g6: "cl_location (capture located_state) = Some here"
    by (simp_all add: capture_def located_state_fields)
  note u = first_fetch_baseline [OF g1 g2 h3 g4 g5]
  from u have q: "poll (Inr [chair, desk]) located_state =
      tick_done (capture located_state) (Inr [chair, desk]) located_state"
    by blast
  from u g6 have raised: "snd (poll (Inr [chair, desk]) located_state) = [Nearby chair]"
    by (simp add: q getDistance_here_chair getDistance_here_desk desk_is_far sample_status)
  from u raised have marked: "lastSeenPostIds (fst (poll (Inr [chair, desk]) located_state)) =
      [''p1'']"
    by (simp add: q [symmetric] sample_ids)
  from t h1 h2 h3 h4 h5 h7 quiet_tick seen later g1 g2 g4 g5 raised marked
  show ?thesis by blast
qed

text \<open>
  C3, counterexample.  The claim as written fails when the first successful fetch
  with a non-empty list is a poll tick: the device is located, the feed load returns
  an empty board, and the first tick fetches the chair next to the device and the
  desk far away.  The tick raises a "nearby" event for the chair, and the desk's id
  is not added to the seen set.
\<close>

theorem first_fetch_by_poll_counterexample:
  "snd (run [SetLocation here, Fetch (Inr []), Poll (Inr [chair, desk])] initial_state) =
     [Nearby chair] \<and>
   lastSeenPostIds
     (fst (run [SetLocation here, Fetch (Inr []), Poll (Inr [chair, desk])]
        initial_state)) = [''p1'']"
proof -
  let ?s = "initial_state\<lparr>userLocation := Some here, loading := False\<rparr>"
  have en: "nearbyNotificationsEnabled ?s" and seen: "lastSeenPostIds ?s = []"
    by (simp_all add: initial_state_def)
  have ev: "snd (step (Poll (Inr [chair, desk])) ?s) = [Nearby chair]"
    by (simp add: step_events en empty_board_nearby_hits empty_board_collected_hits del: step.simps)
  have sn: "lastSeenPostIds (fst (step (Poll (Inr [chair, desk])) ?s)) = [''p1'']"
    by (simp add: step_seen en poll_seen seen empty_board_nearby_hits sample_ids del: step.simps)
  have e0: "snd (step (SetLocation here) initial_state) = []"
    and e1: "snd (step (Fetch (Inr [])) (fst (step (SetLocation here) initial_state))) = []"
    by simp_all
  show ?thesis
    by (simp only: run_fst_snd run_Nil empty_board_state ev sn e0 e1 append_Nil append_Nil2 simp_thms)
qed

text \<open>
  C4.  A failed feed refresh leaves the stored list as it was: \<open>fetchPosts\<close> only
  clears the loading flag.  A poll tick whose fetch fails returns the state unchanged
  and raises no event, and the run goes on with the next operation as if the tick had
  not happened: the tick makes one attempt and the next attempt is the next tick.
\<close>

theorem failed_refresh_keeps_state:
  "fetchPosts (Inl err) s = s\<lparr>loading := False\<rparr> \<and>
   posts (fetchPosts (Inl err) s) = posts s \<and>
   step (Fetch (Inl err)) s = (s\<lparr>loading := False\<rparr>, []) \<and>
   poll (Inl err) s = (s, []) \<and>
   step (Poll (Inl err)) s = (s, []) \<and>
   run (Poll (Inl err) # acts) s = run acts s"
  by (simp add: fetchPosts_def poll_failure)

text \<open>
  C5, as amended.  A missing value loads as the empty array for the three id
  registries and as \<open>true\<close> for the notifications flag.  A stored text is taken as it
  is.  The empty text loads as the empty array for the id registries and as \<open>false\<close>
  for the flag.  For any other text the id registries load what \<open>JSON.parse\<close> returns
  or throws, and it throws a \<open>SyntaxError\<close> on every text that does not begin a JSON
  value; the flag loads as \<open>true\<close> for the text \<open>true\<close> and as \<open>false\<close> for every
  other text.
\<close>

theorem load_missing_or_malformed:
  "load_ids grammar None = Inr (JArray []) \<and>
   load_ids grammar (Some []) = Inr (JArray []) \<and>
   load_ids grammar (Some (c # cs)) = JSON_parse grammar (c # cs) \<and>
   JSON_parse grammar text = (if starts_json_value text then grammar text else Inl SyntaxError) \<and>
   load_notifications_flag None = True \<and>
   load_notifications_flag (Some text) = (text = ''true'')"
  by (simp add: load_ids_def JSON_parse_def load_notifications_flag_def)

text \<open>
  C5, counterexample.  The claim as written fails on the stored text \<open>maybe\<close>: the
  flag loads as \<open>false\<close>, not as the default \<open>true\<close>, and the load of an id registry
  throws a \<open>SyntaxError\<close>, whatever \<open>JSON.parse\<close> does on the texts that begin a JSON
  value.
\<close>

theorem malformed_value_counterexample:
  "\<not> load_notifications_flag (Some ''maybe'') \<and>
   (\<forall>grammar. load_ids grammar (Some ''maybe'') = Inl SyntaxError)"
  by (simp add: load_notifications_flag_def load_ids_def JSON_parse_def starts_json_value_maybe)

text \<open>
  C6.  For a fixed centre and item list, the items kept at radius \<open>r1\<close> are among
  the items kept at any radius \<open>r2 \<ge> r1\<close>, for \<open>filterPostsByRadius\<close> and for the
  \<open>postsInRadius\<close> view alike.
\<close>

theorem radius_filter_monotone:
  assumes "r1 \<le> r2"
  shows "set (filterPostsByRadius items center r1) \<subseteq> set (filterPostsByRadius items center r2) \<and>
         set (postsInRadius items center r1) \<subseteq> set (postsInRadius items center r2)"
  using assms by (auto simp: filterPostsByRadius_def postsInRadius_def Let_def split: option.splits)

theorem radius_filter_monotone_witness:
  "(1::real) \<le> 105 \<and>
   set (filterPostsByRadius [chair, desk] (Some here) 1) \<subseteq>
     set (filterPostsByRadius [chair, desk] (Some here) 105) \<and>
   set (postsInRadius [chair, desk] (Some here) 1) \<subseteq>
     set (postsInRadius [chair, desk] (Some here) 105)"
proof -
  have h: "(1::real) \<le> 105" by simp
  from radius_filter_monotone [OF h, of "[chair, desk]" "Some here"] h
  show ?thesis by blast
qed

text \<open>
  C8.  Without a user location the radius filter returns the list it was given, and
  so does the \<open>postsInRadius\<close> view.
\<close>

theorem no_location_no_filter:
  "filterPostsByRadius allPosts None radius = allPosts \<and>
   postsInRadius filtered None radius = filtered"
  by (simp add: filterPostsByRadius_def postsInRadius_def)

text \<open>
  C9.  The tick body adds to the seen set exactly the ids of the "nearby" events it
  raises, in order; so does the whole tick once the seen set is non-empty, when the
  baseline no longer applies.  Then an active, unowned, unseen item farther than the
  nearby radius, in a feed whose ids are distinct, is not marked seen by the tick,
  and a later tick that fetches it after the location has come within the radius
  raises a "nearby" event for it.
\<close>

theorem far_item_stays_unseen:
  "lastSeenPostIds (fst (checkForUpdates (userLocation s) (myPostIds s) (lastSeenPostIds s) (Inr cur) s)) =
     lastSeenPostIds s @
     map event_id (filter is_nearby
       (snd (checkForUpdates (userLocation s) (myPostIds s) (lastSeenPostIds s) (Inr cur) s))) \<and>
   (lastSeenPostIds s \<noteq> [] \<longrightarrow>
      lastSeenPostIds (fst (poll (Inr cur) s)) =
        lastSeenPostIds s @ map event_id (filter is_nearby (snd (poll (Inr cur) s)))) \<and>
   (lastSeenPostIds s \<noteq> [] \<and> userLocation s = Some loc \<and> distinct (map post_id cur) \<and>
    p \<in> set cur \<and> status p = ''active'' \<and> post_id p \<notin> set (myPostIds s) \<and>
    post_id p \<notin> set (lastSeenPostIds s) \<and>
    \<not> getDistance (fst loc) (snd loc) (latitude p) (longitude p) \<le> 1 \<longrightarrow>
      post_id p \<notin> set (lastSeenPostIds (fst (poll (Inr cur) s))) \<and>
      (\<forall>loc2 cur2.
         getDistance (fst loc2) (snd loc2) (latitude p) (longitude p) \<le> 1 \<and> p \<in> set cur2 \<longrightarrow>
         Nearby p \<in> set (snd (poll (Inr cur2)
           (fst (step (SetLocation loc2) (fst (poll (Inr cur) s))))))))"
proof (intro conjI impI allI)
  show "lastSeenPostIds (fst (checkForUpdates (userLocation s) (myPostIds s) (lastSeenPostIds s) (Inr cur) s)) =
     lastSeenPostIds s @
     map event_id (filter is_nearby
       (snd (checkForUpdates (userLocation s) (myPostIds s) (lastSeenPostIds s) (Inr cur) s)))"
    by (rule checkForUpdates_seen_by_events)
next
  assume "lastSeenPostIds s \<noteq> []"
  then show "lastSeenPostIds (fst (poll (Inr cur) s)) =
        lastSeenPostIds s @ map event_id (filter is_nearby (snd (poll (Inr cur) s)))"
    by (simp add: poll_seen_by_events)
next
  assume a: "lastSeenPostIds s \<noteq> [] \<and> userLocation s = Some loc \<and> distinct (map post_id cur) \<and>
    p \<in> set cur \<and> status p = ''active'' \<and> post_id p \<notin> set (myPostIds s) \<and>
    post_id p \<notin> set (lastSeenPostIds s) \<and>
    \<not> getDistance (fst loc) (snd loc) (latitude p) (longitude p) \<le> 1"
  then have a1: "lastSeenPostIds s \<noteq> []" and a2: "userLocation s = Some loc"
    and a3: "distinct (map post_id cur)" and a4: "p \<in> set cur"
    and a5: "status p = ''active''" and a6: "post_id p \<notin> set (myPostIds s)"
    and a7: "post_id p \<notin> set (lastSeenPostIds s)"
    and a8: "\<not> getDistance (fst loc) (snd loc) (latitude p) (longitude p) \<le> 1"
    by blast+
  show unseen: "post_id p \<notin> set (lastSeenPostIds (fst (poll (Inr cur) s)))"
    by (rule far_item_unmarked [OF a1 a2 a3 a4 a7 a8])
  fix loc2 :: location and cur2
  assume b: "getDistance (fst loc2) (snd loc2) (latitude p) (longitude p) \<le> 1 \<and> p \<in> set cur2"
  then have b1: "getDistance (fst loc2) (snd loc2) (latitude p) (longitude p) \<le> 1"
    and b2: "p \<in> set cur2"
    by blast+
  show "Nearby p \<in> set (snd (poll (Inr cur2)
      (fst (step (SetLocation loc2) (fst (poll (Inr cur) s))))))"
    by (rule far_item_raised_later [OF unseen a5 a6 b1 b2])
qed

theorem far_item_stays_unseen_witness:
  "lastSeenPostIds settled_state \<noteq> [] \<and> userLocation settled_state = Some here \<and>
   distinct (map post_id [chair, desk]) \<and> desk \<in> set [chair, desk] \<and>
   status desk = ''active'' \<and> post_id desk \<notin> set (myPostIds settled_state) \<and>
   post_id desk \<notin> set (lastSeenPostIds settled_state) \<and>
   \<not> getDistance (fst here) (snd here) (latitude desk) (longitude desk) \<le> 1 \<and>
   getDistance (fst there) (snd there) (latitude desk) (longitude desk) \<le> 1 \<and>
   post_id desk \<notin> set (lastSeenPostIds (fst (poll (Inr [chair, desk]) settled_state))) \<and>
   Nearby desk \<in> set (snd (poll (Inr [chair, desk])
     (fst (step (SetLocation there) (fst (poll (Inr [chair, desk]) settled_state))))))"
proof -
  have h1: "lastSeenPostIds settled_state \<noteq> []" by (simp add: settled_state_fields)
  have h2: "userLocation settled_state = Some here" by (simp add: settled_state_fields)
  have h3: "distinct (map post_id [chair, desk])" by (simp add: sample_ids)
  have h4: "desk \<in> set [chair, desk]" by simp
  have h5: "status desk = ''active''" by (simp add: sample_status)
  have h6: "post_id desk \<notin> set (myPostIds settled_state)" by (simp add: settled_state_fields)
  have h7: "post_id desk \<notin> set (lastSeenPostIds settled_state)"
    by (simp add: settled_state_fields sample_ids)
  have h8: "\<not> getDistance (fst here) (snd here) (latitude desk) (longitude desk) \<le> 1"
    by (simp only: getDistance_here_desk desk_is_far simp_thms)
  have h9: "getDistance (fst there) (snd there) (latitude desk) (longitude desk) \<le> 1"
    by (simp add: getDistance_there_desk)
  from far_item_stays_unseen [of settled_state "[chair, desk]" here desk]
    h1 h2 h3 h4 h5 h6 h7 h8 h9
  show ?thesis by blast
qed



end
